theory Spec2Isabelle
  imports Complex_Main "HOL-Library.Word" "HOL-Library.AList" "HOL-Library.Char_ord"
    "HOL-Library.List_Lexorder"
begin

section \<open>Data model\<close>

text \<open>
  \<^verbatim>\<open>time.Duration\<close> is a count of nanoseconds. The code under verification only stores
  and passes durations on, so an unbounded integer is used.
\<close>

type_synonym Duration = int

text \<open>
  \<^verbatim>\<open>http.Response\<close> (standard library), with the fields the package reads: \<^verbatim>\<open>Status\<close>,
  \<^verbatim>\<open>StatusCode\<close>, \<^verbatim>\<open>Header\<close> and \<^verbatim>\<open>Body\<close>. The body is a stream that is read once by
  \<^verbatim>\<open>io.ReadAll\<close>: it either delivers all its bytes or fails with a read error.
\<close>

datatype body_stream = Bytes string | ReadFails string

record http_Response =
  resp_Status :: string
  resp_StatusCode :: int
  resp_Header :: "(string \<times> string list) list"
  resp_Body :: body_stream

text \<open>
  Go error values. \<^verbatim>\<open>context.DeadlineExceeded\<close> is a comparable sentinel; \<open>ErrorString\<close>
  is an error made by \<^verbatim>\<open>errors.New\<close> or by \<^verbatim>\<open>fmt.Errorf\<close> without \<^verbatim>\<open>%w\<close>; \<open>Wrapped\<close> is any
  error with an \<^verbatim>\<open>Unwrap\<close> method around a cause (the \<^verbatim>\<open>*url.Error\<close> that \<^verbatim>\<open>http.Client.Do\<close>
  returns); \<open>RetryableError\<close> is the package's own type (backoff.go, lines 39-64) with its
  fields \<^verbatim>\<open>Response\<close> (nil is \<open>None\<close>) and \<^verbatim>\<open>Err\<close>; \<open>PermanentError\<close> is what
  \<^verbatim>\<open>backoff.Permanent\<close> of the retry library wraps around an error.
\<close>

datatype error =
    DeadlineExceeded
  | ErrorString string
  | Wrapped string error
  | RetryableError "http_Response option" error
  | PermanentError error

text \<open>
  \<^verbatim>\<open>errors.Is\<close> walks the \<^verbatim>\<open>Unwrap\<close> chain. Against \<^verbatim>\<open>context.DeadlineExceeded\<close> it compares
  each error of the chain with the sentinel; \<open>RetryableError\<close> and \<open>PermanentError\<close> both
  have an \<^verbatim>\<open>Unwrap\<close> method that yields the wrapped error.
\<close>

fun errors_Is_DeadlineExceeded :: "error \<Rightarrow> bool" where
  "errors_Is_DeadlineExceeded DeadlineExceeded = True"
| "errors_Is_DeadlineExceeded (ErrorString s) = False"
| "errors_Is_DeadlineExceeded (Wrapped s e) = errors_Is_DeadlineExceeded e"
| "errors_Is_DeadlineExceeded (RetryableError resp e) = errors_Is_DeadlineExceeded e"
| "errors_Is_DeadlineExceeded (PermanentError e) = errors_Is_DeadlineExceeded e"

text \<open>
  \<^verbatim>\<open>errors.Is(err, &RetryableError{})\<close>: the method \<^verbatim>\<open>RetryableError.Is\<close> (backoff.go, lines
  61-64) answers true for any target of its own type, so the test holds exactly when the
  chain of \<open>err\<close> contains a \<open>RetryableError\<close>.
\<close>

fun errors_Is_RetryableError :: "error \<Rightarrow> bool" where
  "errors_Is_RetryableError DeadlineExceeded = False"
| "errors_Is_RetryableError (ErrorString s) = False"
| "errors_Is_RetryableError (Wrapped s e) = errors_Is_RetryableError e"
| "errors_Is_RetryableError (RetryableError resp e) = True"
| "errors_Is_RetryableError (PermanentError e) = errors_Is_RetryableError e"

text \<open>
  \<^verbatim>\<open>errors.As(err, &permanent)\<close> of the retry library: the first \<open>PermanentError\<close> of the
  chain, of which the library returns the wrapped error (\<^verbatim>\<open>permanent.Err\<close>).
\<close>

fun errors_As_PermanentError :: "error \<Rightarrow> error option" where
  "errors_As_PermanentError DeadlineExceeded = None"
| "errors_As_PermanentError (ErrorString s) = None"
| "errors_As_PermanentError (Wrapped s e) = errors_As_PermanentError e"
| "errors_As_PermanentError (RetryableError resp e) = errors_As_PermanentError e"
| "errors_As_PermanentError (PermanentError e) = Some e"

text \<open>\<^verbatim>\<open>io.ReadAll\<close> on a response body.\<close>

fun ReadAll :: "body_stream \<Rightarrow> error + string" where
  "ReadAll (Bytes bs) = Inr bs"
| "ReadAll (ReadFails msg) = Inl (ErrorString msg)"

text \<open>
  \<^verbatim>\<open>context.Context\<close>: the background context, or a context derived from a parent by
  \<^verbatim>\<open>context.WithTimeout\<close>.
\<close>

datatype Context = context_Background | context_WithTimeout Context Duration

text \<open>
  \<^verbatim>\<open>url.URL\<close> and \<^verbatim>\<open>http.Request\<close> (standard library). A request body (an \<^verbatim>\<open>io.Reader\<close>) is
  the bytes it yields; \<open>None\<close> is the nil reader.
\<close>

record url_URL =
  Scheme :: string
  Host :: string
  Path :: string
  RawQuery :: string
  Fragment :: string

record http_Request =
  req_Ctx :: Context
  req_Method :: string
  req_URL :: url_URL
  req_Header :: "(string \<times> string list) list"
  req_Body :: "string option"

text \<open>
  The package's own \<^verbatim>\<open>Response\<close> (backoff.go, lines 32-37): a response whose body has been
  read into memory.
\<close>

record Response =
  Status :: string
  StatusCode :: int
  Header :: "(string \<times> string list) list"
  Body :: string

text \<open>
  HTTP clients are pointers; what matters is which client a call goes through.
  \<open>http_DefaultClient\<close> is the process-wide \<^verbatim>\<open>http.DefaultClient\<close>, \<open>http_Client_zero\<close> is a
  client made by \<^verbatim>\<open>&http.Client{}\<close>, \<open>UserClient n\<close> is the \<open>n\<close>-th client made by the caller.
\<close>

datatype http_Client = http_DefaultClient | http_Client_zero | UserClient nat

text \<open>\<^verbatim>\<open>NewDefaultClient\<close> (client.go, lines 21-23).\<close>

definition NewDefaultClient :: http_Client where
  "NewDefaultClient = http_Client_zero"

section \<open>Configuration\<close>

text \<open>
  The hook types of option.go (lines 8-12) are functions called for their effect. A hook is
  modelled by its identity; \<open>0\<close> is the no-op function that \<^verbatim>\<open>NewBackoffClient\<close> installs.
\<close>

type_synonym hook = nat

text \<open>\<^verbatim>\<open>config\<close> (option.go, lines 14-44); \<^verbatim>\<open>timeout\<close> is a pointer, nil is \<open>None\<close>.\<close>

record config =
  service :: string
  maxRetry :: "64 word"
  initialInterval :: Duration
  maxInterval :: Duration
  multiplier :: real
  timeout :: "Duration option"
  client :: http_Client
  RequestLogHook :: hook
  ResponseLogHook :: hook
  ErrorLogHook :: hook

text \<open>
  The functional options of option.go (lines 57-124), one constructor for each \<^verbatim>\<open>With...\<close>
  function, and the method \<^verbatim>\<open>apply\<close> of the \<^verbatim>\<open>Option\<close> it returns.
\<close>

datatype ClientOption =
    WithClient http_Client
  | WithService string
  | WithTimeout Duration
  | WithMaxRetry "64 word"
  | WithInitialInterval Duration
  | WithMaxInterval Duration
  | WithMultiplier real
  | WithRequestLogHook hook
  | WithResponseLogHook hook
  | WithErrorLogHook hook

fun apply_option :: "ClientOption \<Rightarrow> config \<Rightarrow> config" where
  "apply_option (WithClient cl) c = c\<lparr>client := cl\<rparr>"
| "apply_option (WithService s) c = c\<lparr>service := s\<rparr>"
| "apply_option (WithTimeout t) c = c\<lparr>timeout := Some t\<rparr>"
| "apply_option (WithMaxRetry n) c = c\<lparr>maxRetry := n\<rparr>"
| "apply_option (WithInitialInterval d) c = c\<lparr>initialInterval := d\<rparr>"
| "apply_option (WithMaxInterval d) c = c\<lparr>maxInterval := d\<rparr>"
| "apply_option (WithMultiplier m) c = c\<lparr>multiplier := m\<rparr>"
| "apply_option (WithRequestLogHook h) c = c\<lparr>RequestLogHook := h\<rparr>"
| "apply_option (WithResponseLogHook h) c = c\<lparr>ResponseLogHook := h\<rparr>"
| "apply_option (WithErrorLogHook h) c = c\<lparr>ErrorLogHook := h\<rparr>"

text \<open>The constants of backoff.go (lines 16-22), in nanoseconds.\<close>

definition Millisecond :: Duration where
  "Millisecond = 1000000"

definition Second :: Duration where
  "Second = 1000 * Millisecond"

definition DefaultMaxRetry :: "64 word" where
  "DefaultMaxRetry = 0"

definition DefaultInitialInterval :: Duration where
  "DefaultInitialInterval = 100 * Millisecond"

definition DefaultMultiplier :: real where
  "DefaultMultiplier = 3 / 2"

definition DefaultMaxInterval :: Duration where
  "DefaultMaxInterval = 5 * Second"

text \<open>\<^verbatim>\<open>DefaultMaxElapsedTime\<close> (30 minutes) is declared and used nowhere in the package.\<close>

definition DefaultMaxElapsedTime :: Duration where
  "DefaultMaxElapsedTime = 30 * 60 * Second"

section \<open>The backoff strategies of the retry library\<close>

text \<open>
  The package takes its scheduler from the dependency \<^verbatim>\<open>github.com/cenkalti/backoff/v4\<close>,
  whose code is not part of the repository. The exported settings of the library's
  \<^verbatim>\<open>ExponentialBackOff\<close> are a record; the values that \<^verbatim>\<open>backoff.NewExponentialBackOff()\<close>
  gives them are the library's own defaults and enter the model as a parameter.
\<close>

record ExponentialSettings =
  InitialInterval :: Duration
  RandomizationFactor :: real
  Multiplier :: real
  MaxInterval :: Duration
  MaxElapsedTime :: Duration

text \<open>
  A \<^verbatim>\<open>backoff.BackOff\<close> object. \<open>ExponentialBackOff s k\<close> is an exponential scheduler with
  settings \<open>s\<close> that has handed out \<open>k\<close> waits since its last \<^verbatim>\<open>Reset\<close> (this stands for its
  current interval and its start time). \<open>backOffTries b maxTries numTries\<close> is the wrapper
  made by \<^verbatim>\<open>backoff.WithMaxRetries\<close> around the delegate \<open>b\<close>.
\<close>

datatype BackOff =
    ExponentialBackOff ExponentialSettings nat
  | backOffTries BackOff "64 word" "64 word"

text \<open>
  \<^verbatim>\<open>backoff.NewExponentialBackOff()\<close>, called without arguments, where \<open>d\<close> are the
  library's defaults; and \<^verbatim>\<open>backoff.WithMaxRetries\<close>.
\<close>

definition NewExponentialBackOff :: "ExponentialSettings \<Rightarrow> BackOff" where
  "NewExponentialBackOff d = ExponentialBackOff d 0"

definition WithMaxRetries :: "BackOff \<Rightarrow> 64 word \<Rightarrow> BackOff" where
  "WithMaxRetries b n = backOffTries b n 0"

text \<open>
  Modelled from the spec: the method \<^verbatim>\<open>Reset\<close> of the dependency's strategies, whose code is
  not among the sources of the repository. The backoff state is reset per invocation of
  the execution loop; the retry counter of the wrapper starts again at zero and the
  delegate is reset too.
\<close>

fun Reset :: "BackOff \<Rightarrow> BackOff" where
  "Reset (ExponentialBackOff s k) = ExponentialBackOff s 0"
| "Reset (backOffTries b maxTries numTries) = backOffTries (Reset b) maxTries 0"

text \<open>
  Modelled from the spec: the method \<^verbatim>\<open>NextBackOff\<close> of the dependency's strategies, whose
  code is not among the sources of the repository. The result \<open>None\<close> is the library's \<^verbatim>\<open>Stop\<close>. The wait that the
  exponential scheduler hands out depends on the clock (its elapsed-time bound) and on a
  random jitter, so it is read from the environment: \<open>nx s k\<close> is the answer of a
  scheduler with settings \<open>s\<close> to its \<open>k\<close>-th request since \<^verbatim>\<open>Reset\<close>, and \<open>None\<close> there means
  that the maximum elapsed time is used up. The wrapper stops once \<open>maxTries\<close> waits have
  been handed out (the retry budget is spent), and asks its delegate otherwise.
\<close>

fun NextBackOff ::
  "(ExponentialSettings \<Rightarrow> nat \<Rightarrow> Duration option) \<Rightarrow> BackOff \<Rightarrow> Duration option \<times> BackOff" where
  "NextBackOff nx (ExponentialBackOff s k) = (nx s k, ExponentialBackOff s (Suc k))"
| "NextBackOff nx (backOffTries b maxTries numTries) =
     (if maxTries = 0 then (None, backOffTries b maxTries numTries)
      else if maxTries \<le> numTries then (None, backOffTries b maxTries numTries)
      else (case NextBackOff nx b of
              (next_wait, b') \<Rightarrow> (next_wait, backOffTries b' maxTries (numTries + 1))))"

section \<open>The client\<close>

text \<open>
  \<^verbatim>\<open>BackoffClient\<close> (backoff.go, lines 66-70): the embedded \<^verbatim>\<open>*http.Client\<close>, the
  configuration, and the strategy object. The strategy is mutable and is reached from the
  client, so an operation that uses it takes the client and returns it updated.
\<close>

record BackoffClient =
  Client :: http_Client
  cfg :: config
  backOffStrategy :: BackOff

text \<open>
  \<^verbatim>\<open>NewBackoffClient\<close> (backoff.go, lines 72-99). \<open>d\<close> are the defaults of the dependency's
  \<^verbatim>\<open>NewExponentialBackOff\<close>.
\<close>

definition default_config :: config where
  "default_config =
     \<lparr>service = ''http-client'', maxRetry = DefaultMaxRetry,
      initialInterval = DefaultInitialInterval, maxInterval = DefaultMaxInterval,
      multiplier = DefaultMultiplier, timeout = None, client = NewDefaultClient,
      RequestLogHook = 0, ResponseLogHook = 0, ErrorLogHook = 0\<rparr>"

definition NewBackoffClient :: "ExponentialSettings \<Rightarrow> ClientOption list \<Rightarrow> BackoffClient" where
  "NewBackoffClient d opts =
     (let c = fold apply_option opts default_config;
          strategy =
            (if maxRetry c > 0 then WithMaxRetries (NewExponentialBackOff d) (maxRetry c)
             else NewExponentialBackOff d)
      in \<lparr>Client = http_DefaultClient, cfg = c, backOffStrategy = strategy\<rparr>)"

section \<open>The retry classifier\<close>

text \<open>
  \<^verbatim>\<open>RetryableSet\<close> (backoff.go, lines 25-29): the keys of the map are
  \<^verbatim>\<open>http.StatusRequestTimeout\<close> (408), \<^verbatim>\<open>http.StatusTooEarly\<close> (425) and
  \<^verbatim>\<open>http.StatusTooManyRequests\<close> (429).
\<close>

definition RetryableSet :: "int set" where
  "RetryableSet = {408, 425, 429}"

text \<open>\<^verbatim>\<open>http.StatusNotImplemented\<close>.\<close>

definition StatusNotImplemented :: int where
  "StatusNotImplemented = 501"

text \<open>
  \<^verbatim>\<open>ResponseRetryPolicy\<close> (backoff.go, lines 319-334). The result \<open>None\<close> is Go's \<^verbatim>\<open>nil\<close>
  error (the response is final); \<open>Some e\<close> makes \<^verbatim>\<open>execute\<close> wrap the response in a
  \<open>RetryableError\<close>.
\<close>

definition ResponseRetryPolicy :: "http_Response \<Rightarrow> error option" where
  "ResponseRetryPolicy resp =
     (if resp_StatusCode resp \<in> RetryableSet
      then Some (ErrorString (''status code retryable: '' @ resp_Status resp))
      else if resp_StatusCode resp \<ge> 500 \<and> resp_StatusCode resp \<noteq> StatusNotImplemented
      then Some (ErrorString (''unexpected status code '' @ resp_Status resp))
      else None)"

text \<open>
  The classification as the specification words it: retryable exactly for the codes in
  \<open>{408, 425, 429}\<close> and those of \<open>[500, 600)\<close> other than 501.
\<close>

definition spec_retryable :: "int \<Rightarrow> bool" where
  "spec_retryable code = (code \<in> {408, 425, 429} \<or> (500 \<le> code \<and> code < 600 \<and> code \<noteq> 501))"

section \<open>The environment and the observable effects\<close>

text \<open>
  What the package does to the outside world is recorded as a trace of events: a round
  trip through an HTTP client (\<^verbatim>\<open>c.Do(r)\<close>), the deferred \<^verbatim>\<open>CloseIdleConnections\<close>, a call of
  one of the three hooks of the configuration with its arguments, the closing of a
  response body, and the sleep of the retry loop between two attempts. The duration
  arguments of the error and response hooks are measured with the clock
  (\<^verbatim>\<open>time.Since(startTime)\<close>) and are left out of the events.
\<close>

datatype event =
    Ev_Do http_Client http_Request
  | Ev_CloseIdleConnections http_Client
  | Ev_ErrorLogHook http_Request error nat
  | Ev_ResponseLogHook http_Request http_Response nat
  | Ev_RequestLogHook http_Request error nat Duration
  | Ev_BodyClose
  | Ev_Sleep Duration

record world =
  calls :: nat
  trace :: "event list"

definition emit :: "event \<Rightarrow> world \<Rightarrow> world" where
  "emit e w = w\<lparr>trace := trace w @ [e]\<rparr>"

text \<open>
  The environment: \<open>env_Do cl r k\<close> is what the round trip of request \<open>r\<close> through client
  \<open>cl\<close> yields when it is the \<open>k\<close>-th round trip of the run (counted from 0), a transport
  error or a response; \<open>env_NextBackOff\<close> is the wait the exponential scheduler hands out
  (see \<open>NextBackOff\<close>); \<open>env_Is_RetrieveError e\<close> is the outcome of
  \<^verbatim>\<open>errors.Is(e, &oauth2.RetrieveError{})\<close>, decided by the dependency
  \<^verbatim>\<open>golang.org/x/oauth2\<close>.
\<close>

record env =
  env_Do :: "http_Client \<Rightarrow> http_Request \<Rightarrow> nat \<Rightarrow> error + http_Response"
  env_NextBackOff :: "ExponentialSettings \<Rightarrow> nat \<Rightarrow> Duration option"
  env_Is_RetrieveError :: "error \<Rightarrow> bool"

section \<open>The execution loop\<close>

text \<open>\<^verbatim>\<open>ErrorRetryPolicy\<close> (backoff.go, lines 306-317).\<close>

definition ErrorRetryPolicy :: "env \<Rightarrow> error \<Rightarrow> bool" where
  "ErrorRetryPolicy E err =
     (if errors_Is_DeadlineExceeded err then True
      else if env_Is_RetrieveError E err then True
      else False)"

text \<open>
  \<^verbatim>\<open>execute\<close> (backoff.go, lines 276-304): one round trip and its classification. The
  method \<^verbatim>\<open>Do\<close> and the deferred \<^verbatim>\<open>CloseIdleConnections\<close> are those of the embedded client,
  the field \<open>Client\<close>. \<open>request_sent\<close> is the request as lines 279-283 hand it to \<^verbatim>\<open>Do\<close>: with
  a context that carries the configured timeout, when there is one.
\<close>

definition request_sent :: "BackoffClient \<Rightarrow> http_Request \<Rightarrow> http_Request" where
  "request_sent c r =
     (case timeout (cfg c) of
        None \<Rightarrow> r
      | Some t \<Rightarrow> r\<lparr>req_Ctx := context_WithTimeout (req_Ctx r) t\<rparr>)"

definition execute ::
  "env \<Rightarrow> BackoffClient \<Rightarrow> http_Request \<Rightarrow> world \<Rightarrow> (error + http_Response) \<times> world" where
  "execute E c r w =
     (let r' = request_sent c r;
          outcome = env_Do E (Client c) r' (calls w);
          w1 = emit (Ev_Do (Client c) r') (w\<lparr>calls := Suc (calls w)\<rparr>);
          w2 = emit (Ev_CloseIdleConnections (Client c)) w1
      in (case outcome of
            Inl err \<Rightarrow>
              (if ErrorRetryPolicy E err then (Inl (RetryableError None err), w2)
               else (Inl err, w2))
          | Inr resp \<Rightarrow>
              (case ResponseRetryPolicy resp of
                 Some err \<Rightarrow> (Inl (RetryableError (Some resp) err), w2)
               | None \<Rightarrow> (Inr resp, w2))))"

text \<open>
  The closure \<^verbatim>\<open>f\<close> of \<^verbatim>\<open>Execute\<close> (backoff.go, lines 236-266), which the retry loop calls
  for every attempt. \<open>attempt\<close> is the value of the counter after \<^verbatim>\<open>attempt++\<close>.
\<close>

definition operation ::
  "env \<Rightarrow> BackoffClient \<Rightarrow> http_Request \<Rightarrow> nat \<Rightarrow> world \<Rightarrow> (error + Response) \<times> world" where
  "operation E c r attempt w =
     (case execute E c r w of
        (Inl err, w1) \<Rightarrow>
          (let w2 = emit (Ev_ErrorLogHook r err attempt) w1
           in if errors_Is_RetryableError err then (Inl err, w2)
              else (Inl (PermanentError err), w2))
      | (Inr resp, w1) \<Rightarrow>
          (let w2 = emit (Ev_ResponseLogHook r resp attempt) w1
           in case ReadAll (resp_Body resp) of
                Inl err \<Rightarrow> (Inl err, w2)
              | Inr bs \<Rightarrow>
                  (Inr \<lparr>Status = resp_Status resp, StatusCode = resp_StatusCode resp,
                        Header = resp_Header resp, Body = bs\<rparr>,
                   emit Ev_BodyClose w2)))"

text \<open>
  Modelled from the spec: the retry loop \<^verbatim>\<open>backoff.RetryNotifyWithData\<close> of the dependency,
  whose code is not among the sources of the repository. It resets the strategy, then
  loops: perform one attempt; a result ends the loop; an error marked permanent ends the
  loop and is returned unwrapped from its marker; for any other error the strategy is
  asked for the next wait, and when the budget is spent (\<^verbatim>\<open>Stop\<close>) the error is returned as
  it is; otherwise the notify function of \<^verbatim>\<open>Execute\<close> (backoff.go, lines 268-270) is called
  with the error and the wait, the loop sleeps, and the next attempt follows. The marker
  is the only thing the loop can tell errors apart by: the closure of \<^verbatim>\<open>Execute\<close> hands it
  the errors to be retried as they are (line 244) and wraps the others in
  \<^verbatim>\<open>backoff.Permanent\<close> (line 247).

  A call of \<^verbatim>\<open>Execute\<close> in progress is a \<open>thread\<close>: not yet started, in the loop with the
  value of its local counter \<^verbatim>\<open>attempt\<close>, or finished with its result. \<open>thread_step\<close> is one
  step of it, up to the next point where the call can be suspended (the sleep): the reset
  of the strategy, or one pass through the loop. The strategy it works on is the one of
  the client.
\<close>

datatype thread = Idle | Looping nat | Finished "error + Response"

definition loop_pass ::
  "env \<Rightarrow> http_Request \<Rightarrow> nat \<Rightarrow> BackoffClient \<times> world \<Rightarrow> thread \<times> BackoffClient \<times> world" where
  "loop_pass E r attempt s =
     (case s of (c, w) \<Rightarrow>
       (case operation E c r (Suc attempt) w of
          (Inr res, w1) \<Rightarrow> (Finished (Inr res), c, w1)
        | (Inl err, w1) \<Rightarrow>
            (case errors_As_PermanentError err of
               Some e \<Rightarrow> (Finished (Inl e), c, w1)
             | None \<Rightarrow>
                 (case NextBackOff (env_NextBackOff E) (backOffStrategy c) of
                    (None, b) \<Rightarrow> (Finished (Inl err), c\<lparr>backOffStrategy := b\<rparr>, w1)
                  | (Some d, b) \<Rightarrow>
                      (Looping (Suc attempt), c\<lparr>backOffStrategy := b\<rparr>,
                       emit (Ev_Sleep d) (emit (Ev_RequestLogHook r err (Suc attempt) d) w1))))))"

fun thread_step ::
  "env \<Rightarrow> http_Request \<Rightarrow> thread \<Rightarrow> BackoffClient \<times> world \<Rightarrow> thread \<times> BackoffClient \<times> world" where
  "thread_step E r Idle (c, w) = (Looping 0, c\<lparr>backOffStrategy := Reset (backOffStrategy c)\<rparr>, w)"
| "thread_step E r (Looping attempt) (c, w) = loop_pass E r attempt (c, w)"
| "thread_step E r (Finished res) (c, w) = (Finished res, c, w)"

text \<open>
  A call that runs undisturbed. The loop need not end (a client without a retry bound
  against an endpoint that never recovers), so the run is given fuel, one unit for each
  step; without a result within the fuel the thread is returned unfinished.
\<close>

fun run_thread ::
  "nat \<Rightarrow> env \<Rightarrow> http_Request \<Rightarrow> thread \<Rightarrow> BackoffClient \<times> world \<Rightarrow> thread \<times> BackoffClient \<times> world" where
  "run_thread 0 E r t s = (t, s)"
| "run_thread (Suc n) E r t s =
     (case t of
        Finished res \<Rightarrow> (t, s)
      | _ \<Rightarrow> (case thread_step E r t s of (t', s') \<Rightarrow> run_thread n E r t' s'))"

text \<open>
  \<^verbatim>\<open>Execute\<close> (backoff.go, lines 234-273): the result of the call (\<open>None\<close> when the fuel
  runs out first), the client with its strategy as the call leaves it, and the world.
\<close>

definition Execute ::
  "nat \<Rightarrow> env \<Rightarrow> BackoffClient \<Rightarrow> http_Request \<Rightarrow> world
     \<Rightarrow> (error + Response) option \<times> BackoffClient \<times> world" where
  "Execute fuel E c r w =
     (case run_thread fuel E r Idle (c, w) of
        (Finished res, s) \<Rightarrow> (Some res, s)
      | (_, s) \<Rightarrow> (None, s))"

text \<open>
  Several calls of \<^verbatim>\<open>Execute\<close> on one client, interleaved: each call has its request and
  its thread, and the schedule names, step by step, the call that moves next.
\<close>

fun run_schedule ::
  "env \<Rightarrow> nat list \<Rightarrow> (http_Request \<times> thread) list \<times> BackoffClient \<times> world
     \<Rightarrow> (http_Request \<times> thread) list \<times> BackoffClient \<times> world" where
  "run_schedule E [] st = st"
| "run_schedule E (i # sched) (ts, s) =
     (if i < length ts
      then (case ts ! i of
              (r, t) \<Rightarrow>
                (case thread_step E r t s of
                   (t', s') \<Rightarrow> run_schedule E sched (ts[i := (r, t')], s')))
      else run_schedule E sched (ts, s))"

text \<open>The round trips of a trace: the clients they went through, and how many there were.\<close>

fun do_clients :: "event list \<Rightarrow> http_Client list" where
  "do_clients [] = []"
| "do_clients (Ev_Do cl r # es) = cl # do_clients es"
| "do_clients (e # es) = do_clients es"

fun attempts_of :: "http_Request \<Rightarrow> event list \<Rightarrow> nat" where
  "attempts_of r [] = 0"
| "attempts_of r (Ev_Do cl r' # es) =
     (if req_URL r' = req_URL r then Suc (attempts_of r es) else attempts_of r es)"
| "attempts_of r (e # es) = attempts_of r es"

text \<open>
  The settings of the exponential scheduler at the bottom of a strategy.
\<close>

fun settings_of :: "BackOff \<Rightarrow> ExponentialSettings" where
  "settings_of (ExponentialBackOff s k) = s"
| "settings_of (backOffTries b maxTries numTries) = settings_of b"

text \<open>
  What \<^verbatim>\<open>execute\<close> makes of a response with the status code 503 (backoff.go, lines 296-301 and
  329-331): a \<open>RetryableError\<close> that carries the response. \<open>after_503\<close> is the world after an
  attempt that met such a response.
\<close>

definition err_503 :: "http_Response \<Rightarrow> error" where
  "err_503 resp =
     RetryableError (Some resp) (ErrorString (''unexpected status code '' @ resp_Status resp))"

definition after_503 ::
  "BackoffClient \<Rightarrow> http_Request \<Rightarrow> http_Response \<Rightarrow> nat \<Rightarrow> world \<Rightarrow> world" where
  "after_503 c r resp a w =
     emit (Ev_ErrorLogHook r (err_503 resp) a)
       (emit (Ev_CloseIdleConnections (Client c))
         (emit (Ev_Do (Client c) (request_sent c r)) (w\<lparr>calls := Suc (calls w)\<rparr>)))"

section \<open>The request builder\<close>

text \<open>
  A Go function either returns or panics. The methods of the builder return the builder
  they were called on, which they change in place; the model returns the changed builder.
\<close>

datatype 'a outcome = Panics string | Returns 'a

text \<open>
  \<^verbatim>\<open>url.Values\<close> is a \<^verbatim>\<open>map[string][]string\<close>: \<open>None\<close> is the nil map, which can be read but
  not written, and \<open>Some al\<close> is a map with the entries of the association list \<open>al\<close> (its
  keys distinct). \<^verbatim>\<open>Values.Add\<close> appends a value to the entry of its key; on a nil map the
  assignment panics.
\<close>

type_synonym url_Values = "(string \<times> string list) list option"

definition nil_map_panic :: string where
  "nil_map_panic = ''assignment to entry in nil map''"

definition Values_len :: "url_Values \<Rightarrow> nat" where
  "Values_len v = (case v of None \<Rightarrow> 0 | Some al \<Rightarrow> length al)"

definition Values_Add :: "string \<Rightarrow> string \<Rightarrow> url_Values \<Rightarrow> url_Values outcome" where
  "Values_Add key val v =
     (case v of
        None \<Rightarrow> Panics nil_map_panic
      | Some al \<Rightarrow>
          Returns (Some (AList.update key
            ((case map_of al key of None \<Rightarrow> [] | Some xs \<Rightarrow> xs) @ [val]) al)))"

text \<open>
  The functions of the Go standard library that the builder calls are parameters of the
  model: \<^verbatim>\<open>url.Parse\<close>, \<^verbatim>\<open>URL.String\<close>, \<^verbatim>\<open>url.QueryEscape\<close>, \<^verbatim>\<open>http.NewRequestWithContext\<close> (its
  context may be nil, its body a nil reader), \<^verbatim>\<open>http.CanonicalHeaderKey\<close> and \<^verbatim>\<open>json.Marshal\<close>
  on values of a type \<open>'v\<close>.
\<close>

record 'v stdlib =
  url_Parse :: "string \<Rightarrow> error + url_URL"
  URL_String :: "url_URL \<Rightarrow> string"
  url_QueryEscape :: "string \<Rightarrow> string"
  http_NewRequestWithContext ::
    "Context option \<Rightarrow> string \<Rightarrow> string \<Rightarrow> string option \<Rightarrow> error + http_Request"
  CanonicalHeaderKey :: "string \<Rightarrow> string"
  json_Marshal :: "'v \<Rightarrow> error + string"

text \<open>
  \<^verbatim>\<open>Values.Encode\<close>: the empty string for a map without entries; otherwise the pairs
  \<^verbatim>\<open>key=value\<close>, both escaped, joined by \<^verbatim>\<open>&\<close>, in the order of the sorted keys.
\<close>

fun join_amp :: "string list \<Rightarrow> string" where
  "join_amp [] = []"
| "join_amp [x] = x"
| "join_amp (x # y # zs) = x @ ''&'' @ join_amp (y # zs)"

definition Values_Encode :: "'v stdlib \<Rightarrow> url_Values \<Rightarrow> string" where
  "Values_Encode L v =
     (case v of
        None \<Rightarrow> []
      | Some al \<Rightarrow>
          (if length al = 0 then []
           else join_amp (concat (map
             (\<lambda>k. map (\<lambda>x. url_QueryEscape L k @ ''='' @ url_QueryEscape L x)
                       (case map_of al k of None \<Rightarrow> [] | Some xs \<Rightarrow> xs))
             (sort (map fst al))))))"

text \<open>
  \<^verbatim>\<open>RequestBuilder\<close> (backoff.go, lines 375-382). The maps \<^verbatim>\<open>query\<close>, \<^verbatim>\<open>headers\<close> and \<^verbatim>\<open>form\<close>
  may be nil; the body is the bytes its reader yields, \<open>None\<close> for the nil reader.
\<close>

record RequestBuilder =
  rb_method :: string
  rb_url :: string
  rb_query :: url_Values
  rb_headers :: "(string \<times> string) list option"
  rb_form :: url_Values
  rb_body :: "string option"

text \<open>The constants of backoff.go (lines 353-373) and \<^verbatim>\<open>http.MethodPost\<close>.\<close>

definition ContentTypeForm :: string where
  "ContentTypeForm = ''application/x-www-form-urlencoded''"

definition ContentTypeHeader :: string where
  "ContentTypeHeader = ''Content-Type''"

definition UserAgentHeader :: string where
  "UserAgentHeader = ''User-Agent''"

definition MethodPost :: string where
  "MethodPost = ''POST''"

text \<open>
  \<^verbatim>\<open>NewRequestBuilder\<close> (backoff.go, lines 385-390) makes the maps \<^verbatim>\<open>query\<close> and \<^verbatim>\<open>headers\<close>;
  the field \<^verbatim>\<open>form\<close> keeps its zero value, the nil map.
\<close>

definition NewRequestBuilder :: RequestBuilder where
  "NewRequestBuilder =
     \<lparr>rb_method = [], rb_url = [], rb_query = Some [], rb_headers = Some [], rb_form = None,
      rb_body = None\<rparr>"

text \<open>The methods of the builder (backoff.go, lines 393-487).\<close>

definition Method :: "string \<Rightarrow> RequestBuilder \<Rightarrow> RequestBuilder" where
  "Method m rb = rb\<lparr>rb_method := m\<rparr>"

definition URL :: "string \<Rightarrow> RequestBuilder \<Rightarrow> RequestBuilder" where
  "URL u rb = rb\<lparr>rb_url := u\<rparr>"

definition QueryParam :: "string \<Rightarrow> string \<Rightarrow> RequestBuilder \<Rightarrow> RequestBuilder outcome" where
  "QueryParam key val rb =
     (case Values_Add key val (rb_query rb) of
        Panics p \<Rightarrow> Panics p
      | Returns q \<Rightarrow> Returns (rb\<lparr>rb_query := q\<rparr>))"

definition Query :: "url_Values \<Rightarrow> RequestBuilder \<Rightarrow> RequestBuilder" where
  "Query q rb =
     (if Values_len q = 0 then rb
      else if Values_len (rb_query rb) = 0 then rb\<lparr>rb_query := q\<rparr>
      else (case (q, rb_query rb) of
              (Some new, Some old) \<Rightarrow>
                rb\<lparr>rb_query := Some (fold (\<lambda>kv. AList.update (fst kv) (snd kv)) new old)\<rparr>
            | _ \<Rightarrow> rb))"

definition Header_rb :: "string \<Rightarrow> string \<Rightarrow> RequestBuilder \<Rightarrow> RequestBuilder outcome" where
  "Header_rb key val rb =
     (case rb_headers rb of
        None \<Rightarrow> Panics nil_map_panic
      | Some h \<Rightarrow> Returns (rb\<lparr>rb_headers := Some (AList.update key val h)\<rparr>))"

fun Headers :: "(string \<times> string) list \<Rightarrow> RequestBuilder \<Rightarrow> RequestBuilder outcome" where
  "Headers [] rb = Returns rb"
| "Headers ((key, val) # hs) rb =
     (case Header_rb key val rb of
        Panics p \<Rightarrow> Panics p
      | Returns rb' \<Rightarrow> Headers hs rb')"

definition ContentType :: "string \<Rightarrow> RequestBuilder \<Rightarrow> RequestBuilder outcome" where
  "ContentType ct rb = Header_rb ContentTypeHeader ct rb"

definition UserAgent :: "string \<Rightarrow> RequestBuilder \<Rightarrow> RequestBuilder outcome" where
  "UserAgent ua rb = Header_rb UserAgentHeader ua rb"

definition Body_rb :: "string option \<Rightarrow> RequestBuilder \<Rightarrow> RequestBuilder" where
  "Body_rb b rb = rb\<lparr>rb_body := b\<rparr>"

definition BodyString :: "string \<Rightarrow> RequestBuilder \<Rightarrow> RequestBuilder" where
  "BodyString s rb = rb\<lparr>rb_body := Some s\<rparr>"

definition BodyBytes :: "string \<Rightarrow> RequestBuilder \<Rightarrow> RequestBuilder" where
  "BodyBytes bs rb = rb\<lparr>rb_body := Some bs\<rparr>"

text \<open>
  \<^verbatim>\<open>BodyJSON\<close> (backoff.go, lines 472-479): when \<^verbatim>\<open>json.Marshal\<close> fails the builder is
  returned as it is, and the error is dropped.
\<close>

definition BodyJSON :: "'v stdlib \<Rightarrow> 'v \<Rightarrow> RequestBuilder \<Rightarrow> RequestBuilder" where
  "BodyJSON L data rb =
     (case json_Marshal L data of
        Inl err \<Rightarrow> rb
      | Inr buffer \<Rightarrow> rb\<lparr>rb_body := Some buffer\<rparr>)"

text \<open>
  \<^verbatim>\<open>PostForm\<close> (backoff.go, lines 482-487): the loop over the entries of the argument, in
  the order of the list (Go fixes none), adds each to \<^verbatim>\<open>rb.form\<close>.
\<close>

fun PostForm :: "(string \<times> string) list \<Rightarrow> RequestBuilder \<Rightarrow> RequestBuilder outcome" where
  "PostForm [] rb = Returns rb"
| "PostForm ((key, val) # form) rb =
     (case Values_Add key val (rb_form rb) of
        Panics p \<Rightarrow> Panics p
      | Returns f \<Rightarrow> PostForm form (rb\<lparr>rb_form := f\<rparr>))"

text \<open>
  \<^verbatim>\<open>Build\<close> (backoff.go, lines 490-518). \<^verbatim>\<open>r.Header.Set(key, value)\<close> stores the one value
  under the canonical form of the key. \<open>finish_Build\<close> is the part from line 507 on; the
  result comes with the builder as \<^verbatim>\<open>Build\<close> leaves it.
\<close>

definition Header_Set :: "'v stdlib \<Rightarrow> string \<times> string \<Rightarrow> http_Request \<Rightarrow> http_Request" where
  "Header_Set L kv r =
     r\<lparr>req_Header := AList.update (CanonicalHeaderKey L (fst kv)) [snd kv] (req_Header r)\<rparr>"

definition finish_Build ::
  "'v stdlib \<Rightarrow> Context option \<Rightarrow> url_URL \<Rightarrow> RequestBuilder
     \<Rightarrow> ((error + http_Request) \<times> RequestBuilder) outcome" where
  "finish_Build L ctx u rb =
     (case http_NewRequestWithContext L ctx (rb_method rb) (URL_String L u) (rb_body rb) of
        Inl err \<Rightarrow> Returns (Inl err, rb)
      | Inr r \<Rightarrow>
          Returns (Inr (fold (Header_Set L)
                          (case rb_headers rb of None \<Rightarrow> [] | Some h \<Rightarrow> h) r), rb))"

definition Build ::
  "'v stdlib \<Rightarrow> Context option \<Rightarrow> RequestBuilder
     \<Rightarrow> ((error + http_Request) \<times> RequestBuilder) outcome" where
  "Build L ctx rb =
     (case url_Parse L (rb_url rb) of
        Inl err \<Rightarrow> Returns (Inl err, rb)
      | Inr u0 \<Rightarrow>
          (let u = u0\<lparr>RawQuery := Values_Encode L (rb_query rb)\<rparr>
           in if Values_len (rb_form rb) > 0
              then (case rb_headers rb of
                      None \<Rightarrow> Panics nil_map_panic
                    | Some h \<Rightarrow>
                        finish_Build L ctx u
                          (rb\<lparr>rb_method := MethodPost,
                              rb_headers := Some (AList.update ContentTypeHeader ContentTypeForm h),
                              rb_body := Some (Values_Encode L (rb_form rb))\<rparr>))
              else finish_Build L ctx u rb))"

section \<open>Concrete inputs\<close>

text \<open>
  The inputs at which the theorems below are evaluated. \<open>example_settings\<close> are the
  defaults of version 4 of the retry library (500 ms, factor 0.5, multiplier 1.5, 60 s, 15
  minutes); no theorem depends on their values.
\<close>

definition example_settings :: ExponentialSettings where
  "example_settings =
     \<lparr>InitialInterval = 500 * Millisecond, RandomizationFactor = 1 / 2, Multiplier = 3 / 2,
      MaxInterval = 60 * Second, MaxElapsedTime = 900 * Second\<rparr>"

definition example_request :: http_Request where
  "example_request =
     \<lparr>req_Ctx = context_Background, req_Method = ''GET'',
      req_URL = \<lparr>Scheme = ''http'', Host = ''example.com'', Path = ''/a'', RawQuery = [],
                 Fragment = []\<rparr>,
      req_Header = [], req_Body = None\<rparr>"

definition example_request_B :: http_Request where
  "example_request_B = example_request\<lparr>req_URL := (req_URL example_request)\<lparr>Path := ''/b''\<rparr>\<rparr>"

definition resp_503 :: http_Response where
  "resp_503 = \<lparr>resp_Status = ''503 Service Unavailable'', resp_StatusCode = 503,
                resp_Header = [], resp_Body = Bytes []\<rparr>"

definition resp_200 :: http_Response where
  "resp_200 = \<lparr>resp_Status = ''200 OK'', resp_StatusCode = 200,
                resp_Header = [], resp_Body = Bytes ''ok''\<rparr>"

definition resp_200_broken :: http_Response where
  "resp_200_broken = \<lparr>resp_Status = ''200 OK'', resp_StatusCode = 200,
                       resp_Header = [], resp_Body = ReadFails ''unexpected EOF''\<rparr>"

definition world0 :: world where
  "world0 = \<lparr>calls = 0, trace = []\<rparr>"

text \<open>
  Environments: an endpoint that always answers 503, with a scheduler that always hands
  out its initial interval; the same endpoint so slow that the scheduler's elapsed-time
  bound is used up when it is first asked; an endpoint that answers 503 once and 200
  from then on; and one whose first response is a 200 with a body that fails to be read.
\<close>

definition env_503 :: env where
  "env_503 = \<lparr>env_Do = (\<lambda>cl r k. Inr resp_503),
               env_NextBackOff = (\<lambda>s k. Some (InitialInterval s)),
               env_Is_RetrieveError = (\<lambda>e. False)\<rparr>"

definition env_503_slow :: env where
  "env_503_slow = \<lparr>env_Do = (\<lambda>cl r k. Inr resp_503),
                    env_NextBackOff = (\<lambda>s k. None),
                    env_Is_RetrieveError = (\<lambda>e. False)\<rparr>"

definition env_503_then_200 :: env where
  "env_503_then_200 =
     \<lparr>env_Do = (\<lambda>cl r k. if k = 0 then Inr resp_503 else Inr resp_200),
      env_NextBackOff = (\<lambda>s k. Some (InitialInterval s)),
      env_Is_RetrieveError = (\<lambda>e. False)\<rparr>"

definition env_broken_then_200 :: env where
  "env_broken_then_200 =
     \<lparr>env_Do = (\<lambda>cl r k. if k = 0 then Inr resp_200_broken else Inr resp_200),
      env_NextBackOff = (\<lambda>s k. Some (InitialInterval s)),
      env_Is_RetrieveError = (\<lambda>e. False)\<rparr>"

text \<open>
  A small standard library for the builder: URLs are a path and a query string split at
  the first question mark, nothing is escaped, and of the two kinds of values a string
  can be marshalled and a channel cannot.
\<close>

datatype go_value = GoString string | GoChan

definition toy_parse :: "string \<Rightarrow> url_URL" where
  "toy_parse s =
     \<lparr>Scheme = [], Host = [], Path = takeWhile (\<lambda>ch. ch \<noteq> CHR ''?'') s,
      RawQuery = drop 1 (dropWhile (\<lambda>ch. ch \<noteq> CHR ''?'') s), Fragment = []\<rparr>"

definition toy_stdlib :: "go_value stdlib" where
  "toy_stdlib =
     \<lparr>url_Parse = (\<lambda>s. Inr (toy_parse s)),
      URL_String = (\<lambda>u. Path u @ (if RawQuery u = [] then [] else ''?'' @ RawQuery u)),
      url_QueryEscape = (\<lambda>s. s),
      http_NewRequestWithContext = (\<lambda>ctx m u b.
         case ctx of
           None \<Rightarrow> Inl (ErrorString ''net/http: nil Context'')
         | Some cx \<Rightarrow>
             Inr \<lparr>req_Ctx = cx, req_Method = (if m = [] then ''GET'' else m),
                  req_URL = toy_parse u, req_Header = [], req_Body = b\<rparr>),
      CanonicalHeaderKey = (\<lambda>s. s),
      json_Marshal = (\<lambda>v. case v of
         GoString s \<Rightarrow> Inr (''\"'' @ s @ ''\"'')
       | GoChan \<Rightarrow> Inl (ErrorString ''json: unsupported type: chan int''))\<rparr>"

section \<open>Theorems\<close>

subsection \<open>Auxiliary facts\<close>

lemmas model_defs = Execute_def loop_pass_def operation_def execute_def request_sent_def
  NewBackoffClient_def default_config_def WithMaxRetries_def NewExponentialBackOff_def
  ResponseRetryPolicy_def RetryableSet_def StatusNotImplemented_def ErrorRetryPolicy_def
  emit_def Let_def DefaultMaxRetry_def NewDefaultClient_def

lemma run_thread_Finished: "run_thread n E r (Finished res) s = (Finished res, s)"
  by (cases n) simp_all

lemma do_clients_append: "do_clients (xs @ ys) = do_clients xs @ do_clients ys"
  by (induction xs rule: do_clients.induct) simp_all

lemma NewBackoffClient_strategy_bounded:
  "maxRetry (cfg (NewBackoffClient d opts)) > 0 \<Longrightarrow>
   backOffStrategy (NewBackoffClient d opts) =
     backOffTries (ExponentialBackOff d 0) (maxRetry (cfg (NewBackoffClient d opts))) 0"
  by (simp add: NewBackoffClient_def Let_def WithMaxRetries_def NewExponentialBackOff_def)

lemma NewBackoffClient_Client: "Client (NewBackoffClient d opts) = http_DefaultClient"
  by (simp add: NewBackoffClient_def Let_def)

text \<open>One attempt against a response with the status code 503.\<close>

lemma execute_503:
  assumes "env_Do E (Client c) (request_sent c r) (calls w) = Inr resp"
    and "resp_StatusCode resp = 503"
  shows "execute E c r w =
     (Inl (err_503 resp),
      emit (Ev_CloseIdleConnections (Client c))
        (emit (Ev_Do (Client c) (request_sent c r)) (w\<lparr>calls := Suc (calls w)\<rparr>)))"
  using assms
  by (simp add: execute_def ResponseRetryPolicy_def RetryableSet_def StatusNotImplemented_def
      Let_def err_503_def)

lemma operation_503:
  assumes "env_Do E (Client c) (request_sent c r) (calls w) = Inr resp"
    and "resp_StatusCode resp = 503"
  shows "operation E c r a w = (Inl (err_503 resp), after_503 c r resp a w)"
  by (simp add: operation_def execute_503 [OF assms] Let_def err_503_def after_503_def)

lemma after_503_calls: "calls (after_503 c r resp a w) = Suc (calls w)"
  by (simp add: after_503_def emit_def)

lemma after_503_clients:
  "do_clients (trace (after_503 c r resp a w)) = do_clients (trace w) @ [Client c]"
  by (simp add: after_503_def emit_def do_clients_append)

lemma loop_pass_503_retry:
  assumes "env_Do E (Client c) (request_sent c r) (calls w) = Inr resp"
    and "resp_StatusCode resp = 503"
    and "backOffStrategy c = backOffTries (ExponentialBackOff d k) m n"
    and "n < m"
    and "env_NextBackOff E d k = Some dur"
  shows "loop_pass E r a (c, w) =
     (Looping (Suc a), c\<lparr>backOffStrategy := backOffTries (ExponentialBackOff d (Suc k)) m (n + 1)\<rparr>,
      emit (Ev_Sleep dur) (emit (Ev_RequestLogHook r (err_503 resp) (Suc a) dur)
        (after_503 c r resp (Suc a) w)))"
proof -
  from \<open>n < m\<close> have "\<not> m \<le> n" by simp
  moreover from \<open>n < m\<close> have "m \<noteq> 0" by (auto simp: word_less_nat_alt)
  ultimately show ?thesis
    using assms(3,5)
    by (simp add: loop_pass_def operation_503 [OF assms(1,2)] err_503_def)
qed

lemma loop_pass_503_stop:
  assumes "env_Do E (Client c) (request_sent c r) (calls w) = Inr resp"
    and "resp_StatusCode resp = 503"
    and "backOffStrategy c = backOffTries b m n"
    and "m \<le> n"
  shows "loop_pass E r a (c, w) = (Finished (Inl (err_503 resp)), c, after_503 c r resp (Suc a) w)"
  using assms(3,4)
  by (simp add: loop_pass_def operation_503 [OF assms(1,2)] err_503_def)

text \<open>Every round trip of a call goes through the embedded client.\<close>

lemma execute_clients:
  "execute E c r w = (res, w') \<Longrightarrow> do_clients (trace w') = do_clients (trace w) @ [Client c]"
  by (auto simp: execute_def Let_def emit_def do_clients_append
      split: sum.splits if_splits option.splits)

lemma operation_clients:
  assumes "operation E c r a w = (res, w')"
  shows "do_clients (trace w') = do_clients (trace w) @ [Client c]"
proof (cases "execute E c r w")
  case (Pair x w1)
  then have "do_clients (trace w1) = do_clients (trace w) @ [Client c]"
    by (rule execute_clients)
  with assms Pair show ?thesis
    by (auto simp: operation_def Let_def emit_def do_clients_append split: sum.splits if_splits)
qed

lemma loop_pass_clients:
  assumes "loop_pass E r a (c, w) = (t', c', w')"
  shows "Client c' = Client c \<and> do_clients (trace w') = do_clients (trace w) @ [Client c]"
proof (cases "operation E c r (Suc a) w")
  case (Pair x w1)
  then have "do_clients (trace w1) = do_clients (trace w) @ [Client c]"
    by (rule operation_clients)
  with assms Pair show ?thesis
    by (auto simp: loop_pass_def emit_def do_clients_append
        split: sum.splits option.splits prod.splits)
qed

lemma thread_step_clients:
  assumes "thread_step E r t (c, w) = (t', c', w')"
  shows "Client c' = Client c \<and>
    (\<exists>n. do_clients (trace w') = do_clients (trace w) @ replicate n (Client c))"
proof (cases t)
  case Idle
  with assms show ?thesis by auto
next
  case (Looping a)
  with assms have "loop_pass E r a (c, w) = (t', c', w')" by simp
  from loop_pass_clients [OF this] show ?thesis
    by (metis replicate.simps(1) replicate.simps(2))
next
  case (Finished res)
  with assms show ?thesis by auto
qed

lemma run_thread_clients:
  "run_thread fuel E r t (c, w) = (t', c', w') \<Longrightarrow>
   Client c' = Client c \<and>
     (\<exists>n. do_clients (trace w') = do_clients (trace w) @ replicate n (Client c))"
proof (induction fuel arbitrary: t c w)
  case 0
  then show ?case by auto
next
  case (Suc fuel)
  show ?case
  proof (cases "\<exists>res. t = Finished res")
    case True
    with Suc.prems show ?thesis by auto
  next
    case False
    obtain t1 c1 w1 where step: "thread_step E r t (c, w) = (t1, c1, w1)"
      by (metis prod_cases3)
    with False Suc.prems have run: "run_thread fuel E r t1 (c1, w1) = (t', c', w')"
      by (cases t) auto
    from thread_step_clients [OF step] obtain n where
      n: "Client c1 = Client c"
        "do_clients (trace w1) = do_clients (trace w) @ replicate n (Client c)"
      by blast
    from Suc.IH [OF run] obtain k where
      k: "Client c' = Client c1"
        "do_clients (trace w') = do_clients (trace w1) @ replicate k (Client c1)"
      by blast
    from n k have "do_clients (trace w') = do_clients (trace w) @ replicate (n + k) (Client c)"
      by (simp add: replicate_add)
    with n k show ?thesis by metis
  qed
qed


text \<open>
  The general forms of three of the evaluations below: an attempt that meets a response
  classified retryable calls the error hook and not the response hook; an attempt whose
  response is final but whose body fails to be read hands the retry loop an error without
  the permanent marker; and \<^verbatim>\<open>PostForm\<close> with any entry panics on a builder whose form map is
  nil.
\<close>

lemma operation_retryable_response:
  assumes "env_Do E (Client c) (request_sent c r) (calls w) = Inr resp"
    and "ResponseRetryPolicy resp = Some e"
  shows "operation E c r a w =
     (Inl (RetryableError (Some resp) e),
      emit (Ev_ErrorLogHook r (RetryableError (Some resp) e) a)
        (emit (Ev_CloseIdleConnections (Client c))
          (emit (Ev_Do (Client c) (request_sent c r)) (w\<lparr>calls := Suc (calls w)\<rparr>))))"
  using assms by (simp add: operation_def execute_def Let_def)

lemma operation_body_read_failure:
  assumes "env_Do E (Client c) (request_sent c r) (calls w) = Inr resp"
    and "ResponseRetryPolicy resp = None"
    and "resp_Body resp = ReadFails msg"
  shows "fst (operation E c r a w) = Inl (ErrorString msg)"
    and "errors_As_PermanentError (ErrorString msg) = None"
  using assms by (simp_all add: operation_def execute_def Let_def)

lemma PostForm_nil_form_panics:
  "rb_form rb = None \<Longrightarrow> form \<noteq> [] \<Longrightarrow> PostForm form rb = Panics nil_map_panic"
  by (cases form) (auto simp: Values_Add_def)

subsection \<open>C1: the response classifier\<close>

text \<open>
  C1, as stated, fails: the classifier has no upper bound at 600. A response whose status
  line carries the code 600 (any three digits are accepted by the client) is classified
  retryable, where the claim makes it permanent. The comment in the source says that the
  test is meant to catch invalid codes as well.
\<close>

theorem C1_counterexample_600:
  "ResponseRetryPolicy \<lparr>resp_Status = ''600 '', resp_StatusCode = 600, resp_Header = [],
      resp_Body = Bytes []\<rparr> \<noteq> None \<and> \<not> spec_retryable 600"
  by (simp add: ResponseRetryPolicy_def RetryableSet_def StatusNotImplemented_def
      spec_retryable_def)

text \<open>
  C1, amended: a response is classified retryable if and only if its status code is 408,
  425 or 429, or is at least 500 and not 501; every other response is final.
\<close>

theorem C1_ResponseRetryPolicy_iff:
  "(ResponseRetryPolicy resp \<noteq> None) =
     (resp_StatusCode resp \<in> {408, 425, 429} \<or>
      (500 \<le> resp_StatusCode resp \<and> resp_StatusCode resp \<noteq> 501))"
  by (simp add: ResponseRetryPolicy_def RetryableSet_def StatusNotImplemented_def)

subsection \<open>C2: the scheduler and the configured intervals\<close>

text \<open>
  C2 does not hold of the code. \<^verbatim>\<open>NewBackoffClient\<close> stores the values of
  \<^verbatim>\<open>WithInitialInterval\<close>, \<^verbatim>\<open>WithMultiplier\<close> and \<^verbatim>\<open>WithMaxInterval\<close> in its configuration and
  then builds the scheduler with \<^verbatim>\<open>backoff.NewExponentialBackOff()\<close>, without them: whatever
  was configured, the settings of the scheduler are the defaults \<open>d\<close> of the retry library.
\<close>

theorem C2_scheduler_ignores_configured_intervals:
  "settings_of (backOffStrategy (NewBackoffClient d
      (opts @ [WithInitialInterval a, WithMultiplier m, WithMaxInterval b]))) = d \<and>
   initialInterval (cfg (NewBackoffClient d
      (opts @ [WithInitialInterval a, WithMultiplier m, WithMaxInterval b]))) = a \<and>
   multiplier (cfg (NewBackoffClient d
      (opts @ [WithInitialInterval a, WithMultiplier m, WithMaxInterval b]))) = m \<and>
   maxInterval (cfg (NewBackoffClient d
      (opts @ [WithInitialInterval a, WithMultiplier m, WithMaxInterval b]))) = b"
  by (simp add: NewBackoffClient_def Let_def WithMaxRetries_def NewExponentialBackOff_def)

subsection \<open>C3: the retry budget\<close>

text \<open>
  C3, as stated, fails: the retry count is not the only bound of the loop. When the
  scheduler's elapsed-time bound is used up first (here: the endpoint is so slow that the
  bound is reached during the first attempt), a client with \<open>maxRetry = 3\<close> stops after a
  single round trip against an endpoint that always answers 503.
\<close>

theorem C3_counterexample_elapsed_time:
  "fst (Execute 5 env_503_slow (NewBackoffClient example_settings [WithMaxRetry 3])
          example_request world0) = Some (Inl (err_503 resp_503)) \<and>
   calls (snd (snd (Execute 5 env_503_slow (NewBackoffClient example_settings [WithMaxRetry 3])
          example_request world0))) = 1"
  by (simp add: model_defs env_503_slow_def world0_def resp_503_def err_503_def numeral_eq_Suc)

text \<open>
  C3, amended: for a client made by \<^verbatim>\<open>NewBackoffClient\<close> with \<open>maxRetry = 3\<close>, against an
  endpoint whose every attempt yields a 503 response, and as long as the scheduler's
  elapsed-time bound is not used up at any of the first three retries, \<^verbatim>\<open>Execute\<close> (given
  the five steps it needs) returns after exactly 4 round trips, all of them made by this
  call, and its result is the error of the last attempt: the \<open>RetryableError\<close> that carries
  the response of the fourth round trip.
\<close>

theorem C3_four_attempts:
  assumes c: "c = NewBackoffClient d opts" and m: "maxRetry (cfg c) = 3"
    and always: "\<forall>cl r' k. \<exists>resp. env_Do E cl r' k = Inr resp \<and> resp_StatusCode resp = 503"
    and budget: "\<forall>k<3. env_NextBackOff E d k \<noteq> None"
    and fuel: "5 \<le> fuel"
  shows "\<exists>resp c' w'.
           Execute fuel E c r w = (Some (Inl (err_503 resp)), c', w') \<and>
           env_Do E http_DefaultClient (request_sent c r) (calls w + 3) = Inr resp \<and>
           resp_StatusCode resp = 503 \<and>
           calls w' = calls w + 4 \<and>
           do_clients (trace w') = do_clients (trace w) @ replicate 4 http_DefaultClient"
proof -
  have cl: "Client c = http_DefaultClient"
    by (simp add: c NewBackoffClient_Client)
  have strat: "backOffStrategy c = backOffTries (ExponentialBackOff d 0) 3 0"
    using NewBackoffClient_strategy_bounded [of d opts] m by (simp add: c)
  obtain fuel' where "fuel = 5 + fuel'"
    using fuel le_Suc_ex by blast
  then have fuel': "fuel = Suc (Suc (Suc (Suc (Suc fuel'))))"
    by (simp add: numeral_eq_Suc)
  obtain r1 where r1: "env_Do E http_DefaultClient (request_sent c r) (calls w) = Inr r1"
      "resp_StatusCode r1 = 503"
    using always by blast
  obtain r2 where r2: "env_Do E http_DefaultClient (request_sent c r) (Suc (calls w)) = Inr r2"
      "resp_StatusCode r2 = 503"
    using always by blast
  obtain r3 where r3:
      "env_Do E http_DefaultClient (request_sent c r) (Suc (Suc (calls w))) = Inr r3"
      "resp_StatusCode r3 = 503"
    using always by blast
  obtain r4 where r4:
      "env_Do E http_DefaultClient (request_sent c r) (Suc (Suc (Suc (calls w)))) = Inr r4"
      "resp_StatusCode r4 = 503"
    using always by blast
  obtain d0 d1 d2 where nx: "env_NextBackOff E d 0 = Some d0"
      "env_NextBackOff E d (Suc 0) = Some d1" "env_NextBackOff E d (Suc (Suc 0)) = Some d2"
    using budget [rule_format, of 0] budget [rule_format, of "Suc 0"]
      budget [rule_format, of "Suc (Suc 0)"]
    by (auto simp: numeral_eq_Suc)
  define c0 where "c0 = c\<lparr>backOffStrategy := Reset (backOffStrategy c)\<rparr>"
  define w1 where "w1 = emit (Ev_Sleep d0)
    (emit (Ev_RequestLogHook r (err_503 r1) (Suc 0) d0) (after_503 c0 r r1 (Suc 0) w))"
  define c1 where
    "c1 = c0\<lparr>backOffStrategy := backOffTries (ExponentialBackOff d (Suc 0)) 3 (0 + 1)\<rparr>"
  define w2 where "w2 = emit (Ev_Sleep d1)
    (emit (Ev_RequestLogHook r (err_503 r2) (Suc (Suc 0)) d1)
      (after_503 c1 r r2 (Suc (Suc 0)) w1))"
  define c2 where "c2 = c1\<lparr>backOffStrategy :=
    backOffTries (ExponentialBackOff d (Suc (Suc 0))) 3 (0 + 1 + 1)\<rparr>"
  define w3 where "w3 = emit (Ev_Sleep d2)
    (emit (Ev_RequestLogHook r (err_503 r3) (Suc (Suc (Suc 0))) d2)
      (after_503 c2 r r3 (Suc (Suc (Suc 0))) w2))"
  define c3 where "c3 = c2\<lparr>backOffStrategy :=
    backOffTries (ExponentialBackOff d (Suc (Suc (Suc 0)))) 3 (0 + 1 + 1 + 1)\<rparr>"
  define w4 where "w4 = after_503 c3 r r4 (Suc (Suc (Suc (Suc 0)))) w3"
  have sent: "request_sent c0 r = request_sent c r" "request_sent c1 r = request_sent c r"
      "request_sent c2 r = request_sent c r" "request_sent c3 r = request_sent c r"
    by (simp_all add: request_sent_def c0_def c1_def c2_def c3_def)
  have cls: "Client c0 = http_DefaultClient" "Client c1 = http_DefaultClient"
      "Client c2 = http_DefaultClient" "Client c3 = http_DefaultClient"
    by (simp_all add: cl c0_def c1_def c2_def c3_def)
  have calls: "calls w1 = Suc (calls w)" "calls w2 = Suc (Suc (calls w))"
      "calls w3 = Suc (Suc (Suc (calls w)))" "calls w4 = calls w + 4"
    by (simp_all add: w1_def w2_def w3_def w4_def emit_def after_503_calls)
  have s0: "backOffStrategy c0 = backOffTries (ExponentialBackOff d 0) 3 0"
    by (simp add: c0_def strat)
  have s1: "backOffStrategy c1 = backOffTries (ExponentialBackOff d (Suc 0)) 3 (0 + 1)"
    by (simp add: c1_def)
  have s2: "backOffStrategy c2 = backOffTries (ExponentialBackOff d (Suc (Suc 0))) 3 (0 + 1 + 1)"
    by (simp add: c2_def)
  have s3: "backOffStrategy c3 =
      backOffTries (ExponentialBackOff d (Suc (Suc (Suc 0)))) 3 (0 + 1 + 1 + 1)"
    by (simp add: c3_def)
  have p1: "loop_pass E r 0 (c0, w) = (Looping (Suc 0), c1, w1)"
    unfolding c1_def w1_def
    by (rule loop_pass_503_retry) (simp_all add: sent cls r1 nx s0)
  have p2: "loop_pass E r (Suc 0) (c1, w1) = (Looping (Suc (Suc 0)), c2, w2)"
    unfolding c2_def w2_def
    by (rule loop_pass_503_retry [OF _ _ s1]) (simp_all add: sent cls calls r2 nx)
  have p3: "loop_pass E r (Suc (Suc 0)) (c2, w2) = (Looping (Suc (Suc (Suc 0))), c3, w3)"
    unfolding c3_def w3_def
    by (rule loop_pass_503_retry [OF _ _ s2]) (simp_all add: sent cls calls r3 nx)
  have p4: "loop_pass E r (Suc (Suc (Suc 0))) (c3, w3) = (Finished (Inl (err_503 r4)), c3, w4)"
    unfolding w4_def
    by (rule loop_pass_503_stop [OF _ _ s3]) (simp_all add: sent cls calls r4)
  have run: "run_thread fuel E r Idle (c, w) = (Finished (Inl (err_503 r4)), c3, w4)"
    unfolding fuel'
    using p1 p2 p3 p4 by (simp add: c0_def [symmetric] run_thread_Finished)
  have tr: "do_clients (trace w4) = do_clients (trace w) @ replicate 4 http_DefaultClient"
    by (simp add: w1_def w2_def w3_def w4_def emit_def after_503_clients do_clients_append cls
        numeral_eq_Suc)
  show ?thesis
    using run r4 calls(4) tr by (auto simp: Execute_def numeral_eq_Suc)
qed

theorem C3_four_attempts_witness:
  "\<exists>resp c' w'.
     Execute 5 env_503 (NewBackoffClient example_settings [WithMaxRetry 3]) example_request world0 =
       (Some (Inl (err_503 resp)), c', w') \<and>
     env_Do env_503 http_DefaultClient
       (request_sent (NewBackoffClient example_settings [WithMaxRetry 3]) example_request)
       (calls world0 + 3) = Inr resp \<and>
     resp_StatusCode resp = 503 \<and> calls w' = calls world0 + 4 \<and>
     do_clients (trace w') = do_clients (trace world0) @ replicate 4 http_DefaultClient"
  using C3_four_attempts [of "NewBackoffClient example_settings [WithMaxRetry 3]" example_settings
      "[WithMaxRetry 3]" env_503 5 example_request world0]
  by (simp add: NewBackoffClient_def Let_def env_503_def resp_503_def)

subsection \<open>C4: the client set by WithClient\<close>

text \<open>
  C4 does not hold of the code. \<^verbatim>\<open>WithClient\<close> stores the supplied client in the
  configuration, but \<^verbatim>\<open>NewBackoffClient\<close> embeds \<^verbatim>\<open>http.DefaultClient\<close>, and \<^verbatim>\<open>execute\<close> calls
  \<^verbatim>\<open>Do\<close> on the embedded client: whatever client was supplied, every round trip of
  \<^verbatim>\<open>Execute\<close> goes through the process-wide default client.
\<close>

theorem C4_supplied_client_unused:
  "client (cfg (NewBackoffClient d (opts @ [WithClient cl]))) = cl \<and>
   (\<exists>n. do_clients (trace (snd (snd
           (Execute fuel E (NewBackoffClient d (opts @ [WithClient cl])) r w)))) =
         do_clients (trace w) @ replicate n http_DefaultClient)"
proof -
  let ?c = "NewBackoffClient d (opts @ [WithClient cl])"
  obtain t' c' w' where run: "run_thread fuel E r Idle (?c, w) = (t', c', w')"
    by (metis prod_cases3)
  from run_thread_clients [OF run] obtain n where
    "do_clients (trace w') = do_clients (trace w) @ replicate n (Client ?c)" by blast
  then have "do_clients (trace w') = do_clients (trace w) @ replicate n http_DefaultClient"
    by (simp add: NewBackoffClient_Client)
  moreover have "snd (snd (Execute fuel E ?c r w)) = w'"
    using run by (cases t') (simp_all add: Execute_def)
  moreover have "client (cfg ?c) = cl"
    by (simp add: NewBackoffClient_def Let_def)
  ultimately show ?thesis by auto
qed

subsection \<open>C5: the backoff state and concurrent calls\<close>

text \<open>
  C5 does not hold of the code. The strategy object is made once, by \<^verbatim>\<open>NewBackoffClient\<close>,
  and every call of \<^verbatim>\<open>Execute\<close> hands this one object to the retry loop. It is reset at the
  start of each call, but two calls that overlap work on the same retry counter. With
  \<open>maxRetry = 1\<close> and an endpoint that always answers 503, a call on its own makes 2 round
  trips. In the interleaving below the second call starts (and resets the counter) while
  the first one sleeps after its first attempt: the first call then makes 3 round trips,
  and the second call finds the budget spent and makes 1.
\<close>

theorem C5_strategy_shared_between_calls:
  "(case run_schedule env_503 [0, 0, 1, 0, 0, 1]
          ([(example_request, Idle), (example_request_B, Idle)],
           NewBackoffClient example_settings [WithMaxRetry 1], world0) of
      (ts, c', w') \<Rightarrow>
        map snd ts = [Finished (Inl (err_503 resp_503)), Finished (Inl (err_503 resp_503))] \<and>
        attempts_of example_request (trace w') = 3 \<and>
        attempts_of example_request_B (trace w') = 1) \<and>
   attempts_of example_request (trace (snd (snd
      (Execute 4 env_503 (NewBackoffClient example_settings [WithMaxRetry 1])
         example_request world0)))) = 2"
  by (simp add: model_defs env_503_def world0_def resp_503_def err_503_def
      example_settings_def example_request_B_def example_request_def numeral_eq_Suc)

subsection \<open>C6: the response hook\<close>

text \<open>
  C6 does not hold of the code. \<^verbatim>\<open>execute\<close> turns a response that is classified retryable
  into an error, and the closure of \<^verbatim>\<open>Execute\<close> calls the response hook only after the error
  branch. Against an endpoint that answers 503 and then 200 the first attempt produces a
  response, and the hooks called for it are the error hook and the request hook; the
  response hook is called once, for the second attempt.
\<close>

theorem C6_no_response_hook_for_retryable_response:
  "trace (snd (snd (Execute 3 env_503_then_200 (NewBackoffClient example_settings [])
      example_request world0))) =
   [Ev_Do http_DefaultClient example_request,
    Ev_CloseIdleConnections http_DefaultClient,
    Ev_ErrorLogHook example_request (err_503 resp_503) 1,
    Ev_RequestLogHook example_request (err_503 resp_503) 1 (500 * Millisecond),
    Ev_Sleep (500 * Millisecond),
    Ev_Do http_DefaultClient example_request,
    Ev_CloseIdleConnections http_DefaultClient,
    Ev_ResponseLogHook example_request resp_200 2,
    Ev_BodyClose]"
  by (simp add: model_defs env_503_then_200_def world0_def resp_503_def resp_200_def err_503_def
      example_settings_def numeral_eq_Suc)

subsection \<open>C7: a body that fails to be read\<close>

text \<open>
  C7 does not hold of the code. The closure of \<^verbatim>\<open>Execute\<close> returns the error of
  \<^verbatim>\<open>io.ReadAll\<close> as it is (line 255), where the branch for transport errors marks an error
  that must not be retried with \<^verbatim>\<open>backoff.Permanent\<close> (line 247). The retry loop retries
  every error that is not so marked: after a 200 response whose body fails to be read, the
  request is sent again, and here the caller gets the result of the second attempt.
\<close>

theorem C7_body_read_failure_is_retried:
  "Execute 3 env_broken_then_200 (NewBackoffClient example_settings []) example_request world0 =
   (Some (Inr \<lparr>Status = ''200 OK'', StatusCode = 200, Header = [], Body = ''ok''\<rparr>),
    (NewBackoffClient example_settings [])
      \<lparr>backOffStrategy := ExponentialBackOff example_settings 1\<rparr>,
    \<lparr>calls = 2,
     trace =
       [Ev_Do http_DefaultClient example_request,
        Ev_CloseIdleConnections http_DefaultClient,
        Ev_ResponseLogHook example_request resp_200_broken 1,
        Ev_RequestLogHook example_request (ErrorString ''unexpected EOF'') 1 (500 * Millisecond),
        Ev_Sleep (500 * Millisecond),
        Ev_Do http_DefaultClient example_request,
        Ev_CloseIdleConnections http_DefaultClient,
        Ev_ResponseLogHook example_request resp_200 2,
        Ev_BodyClose]\<rparr>)"
  by (simp add: model_defs env_broken_then_200_def world0_def resp_200_broken_def resp_200_def
      example_settings_def numeral_eq_Suc)

subsection \<open>C8: form data\<close>

text \<open>
  C8 does not hold of the code. \<^verbatim>\<open>NewRequestBuilder\<close> makes the maps \<^verbatim>\<open>query\<close> and \<^verbatim>\<open>headers\<close>
  but leaves \<^verbatim>\<open>form\<close> nil, and \<^verbatim>\<open>PostForm\<close> adds to it: with the form data of the claim, in
  either order of the two entries, the first \<^verbatim>\<open>Add\<close> panics and no request is built.
\<close>

theorem C8_PostForm_panics:
  "PostForm [(''a'', ''1''), (''b'', ''2'')] NewRequestBuilder =
     Panics ''assignment to entry in nil map'' \<and>
   PostForm [(''b'', ''2''), (''a'', ''1'')] NewRequestBuilder =
     Panics ''assignment to entry in nil map''"
  by (simp add: NewRequestBuilder_def Values_Add_def nil_map_panic_def)

subsection \<open>C9: a value that cannot be marshalled\<close>

text \<open>
  C9: when \<^verbatim>\<open>json.Marshal\<close> fails on the value given to \<^verbatim>\<open>BodyJSON\<close>, the builder is left as
  it was, its body included, and \<^verbatim>\<open>Build\<close> on it gives what it would have given without
  the call: the error of the encoding is reported nowhere.
\<close>

theorem C9_BodyJSON_failure_silent:
  assumes "json_Marshal L data = Inl e"
  shows "BodyJSON L data rb = rb \<and> rb_body (BodyJSON L data rb) = rb_body rb \<and>
         Build L ctx (BodyJSON L data rb) = Build L ctx rb"
  using assms by (simp add: BodyJSON_def)

theorem C9_BodyJSON_failure_silent_witness:
  "json_Marshal toy_stdlib GoChan = Inl (ErrorString ''json: unsupported type: chan int'') \<and>
   BodyJSON toy_stdlib GoChan (BodyString ''old'' (URL ''/p'' NewRequestBuilder)) =
     BodyString ''old'' (URL ''/p'' NewRequestBuilder) \<and>
   rb_body (BodyJSON toy_stdlib GoChan (BodyString ''old'' (URL ''/p'' NewRequestBuilder))) =
     Some ''old'' \<and>
   Build toy_stdlib (Some context_Background)
       (BodyJSON toy_stdlib GoChan (BodyString ''old'' (URL ''/p'' NewRequestBuilder))) =
     Returns (Inr \<lparr>req_Ctx = context_Background, req_Method = ''GET'',
                   req_URL = \<lparr>Scheme = [], Host = [], Path = ''/p'', RawQuery = [],
                              Fragment = []\<rparr>,
                   req_Header = [], req_Body = Some ''old''\<rparr>,
              BodyString ''old'' (URL ''/p'' NewRequestBuilder))"
proof -
  let ?rb = "BodyString ''old'' (URL ''/p'' NewRequestBuilder)"
  have h: "json_Marshal toy_stdlib GoChan = Inl (ErrorString ''json: unsupported type: chan int'')"
    by (simp add: toy_stdlib_def)
  have b: "Build toy_stdlib (Some context_Background) ?rb =
     Returns (Inr \<lparr>req_Ctx = context_Background, req_Method = ''GET'',
                   req_URL = \<lparr>Scheme = [], Host = [], Path = ''/p'', RawQuery = [],
                              Fragment = []\<rparr>,
                   req_Header = [], req_Body = Some ''old''\<rparr>, ?rb)"
    by (simp add: toy_stdlib_def toy_parse_def Build_def finish_Build_def BodyString_def URL_def
        NewRequestBuilder_def Values_len_def Values_Encode_def)
  have o: "rb_body ?rb = Some ''old''"
    by (simp add: BodyString_def)
  show ?thesis
    using h b o C9_BodyJSON_failure_silent [OF h, of ?rb "Some context_Background"] by simp
qed

subsection \<open>C10: the query string of the built request\<close>

text \<open>
  C10: when \<^verbatim>\<open>Build\<close> returns a request, the target was parsed to a URL \<open>u\<close>, and the request
  is the one that \<^verbatim>\<open>http.NewRequestWithContext\<close> makes for the string of \<open>u\<close> with its query
  string replaced by the encoding of the builder's query values (followed by the headers
  of the builder); when the builder holds no query values that encoding is empty, so a
  query string that came with the URL is gone.
\<close>

theorem C10_Build_replaces_query:
  assumes "Build L ctx rb = Returns (Inr req, rb')"
  shows "\<exists>u req0.
           url_Parse L (rb_url rb) = Inr u \<and>
           http_NewRequestWithContext L ctx (rb_method rb')
             (URL_String L (u\<lparr>RawQuery := Values_Encode L (rb_query rb)\<rparr>)) (rb_body rb') =
             Inr req0 \<and>
           req = fold (Header_Set L) (case rb_headers rb' of None \<Rightarrow> [] | Some h \<Rightarrow> h) req0 \<and>
           (Values_len (rb_query rb) = 0 \<longrightarrow> Values_Encode L (rb_query rb) = [])"
  using assms
  by (auto simp: Build_def finish_Build_def Let_def Values_len_def Values_Encode_def
      split: sum.splits if_splits option.splits)

theorem C10_Build_replaces_query_witness:
  "Build toy_stdlib (Some context_Background) (URL ''/p?x=1'' NewRequestBuilder) =
     Returns (Inr \<lparr>req_Ctx = context_Background, req_Method = ''GET'',
                   req_URL = \<lparr>Scheme = [], Host = [], Path = ''/p'', RawQuery = [],
                              Fragment = []\<rparr>,
                   req_Header = [], req_Body = None\<rparr>,
              URL ''/p?x=1'' NewRequestBuilder) \<and>
   (\<exists>u req0.
      url_Parse toy_stdlib (rb_url (URL ''/p?x=1'' NewRequestBuilder)) = Inr u \<and>
      RawQuery u = ''x=1'' \<and>
      http_NewRequestWithContext toy_stdlib (Some context_Background)
        (rb_method (URL ''/p?x=1'' NewRequestBuilder))
        (URL_String toy_stdlib
          (u\<lparr>RawQuery := Values_Encode toy_stdlib (rb_query (URL ''/p?x=1'' NewRequestBuilder))\<rparr>))
        (rb_body (URL ''/p?x=1'' NewRequestBuilder)) = Inr req0 \<and>
      RawQuery (req_URL req0) = [])"
proof -
  let ?rb = "URL ''/p?x=1'' NewRequestBuilder"
  let ?req = "\<lparr>req_Ctx = context_Background, req_Method = ''GET'',
                req_URL = \<lparr>Scheme = [], Host = [], Path = ''/p'', RawQuery = [], Fragment = []\<rparr>,
                req_Header = [], req_Body = None\<rparr>"
  have b: "Build toy_stdlib (Some context_Background) ?rb = Returns (Inr ?req, ?rb)"
    by (simp add: toy_stdlib_def toy_parse_def Build_def finish_Build_def URL_def
        NewRequestBuilder_def Values_len_def Values_Encode_def)
  have p: "url_Parse toy_stdlib (rb_url ?rb) =
      Inr \<lparr>Scheme = [], Host = [], Path = ''/p'', RawQuery = ''x=1'', Fragment = []\<rparr>"
    by (simp add: toy_stdlib_def toy_parse_def URL_def NewRequestBuilder_def)
  from C10_Build_replaces_query [OF b] obtain u req0 where
    u: "url_Parse toy_stdlib (rb_url ?rb) = Inr u" and
    r0: "http_NewRequestWithContext toy_stdlib (Some context_Background) (rb_method ?rb)
           (URL_String toy_stdlib (u\<lparr>RawQuery := Values_Encode toy_stdlib (rb_query ?rb)\<rparr>))
           (rb_body ?rb) = Inr req0" and
    eq: "?req = fold (Header_Set toy_stdlib)
           (case rb_headers ?rb of None \<Rightarrow> [] | Some h \<Rightarrow> h) req0"
    by blast
  from u p have
    "u = \<lparr>Scheme = [], Host = [], Path = ''/p'', RawQuery = ''x=1'', Fragment = []\<rparr>"
    by simp
  then have q: "RawQuery u = ''x=1''"
    by simp
  have "rb_headers ?rb = Some []"
    by (simp add: URL_def NewRequestBuilder_def)
  with eq have "req0 = ?req"
    by simp
  then have e: "RawQuery (req_URL req0) = []"
    by simp
  from u q r0 e have "\<exists>u req0.
      url_Parse toy_stdlib (rb_url ?rb) = Inr u \<and> RawQuery u = ''x=1'' \<and>
      http_NewRequestWithContext toy_stdlib (Some context_Background) (rb_method ?rb)
        (URL_String toy_stdlib (u\<lparr>RawQuery := Values_Encode toy_stdlib (rb_query ?rb)\<rparr>))
        (rb_body ?rb) = Inr req0 \<and>
      RawQuery (req_URL req0) = []"
    by blast
  with b show ?thesis
    by (rule conjI)
qed

end
